theory Spec2Isabelle
  imports Complex_Main
begin

section \<open>Smart Order Risk Analyzer: scoring, ingestion, notification, broadcast\<close>

text \<open>
  A shallow embedding of \<^verbatim>\<open>app/utils/riskAnalysis.server.ts\<close>,
  \<^verbatim>\<open>app/routes/webhooks.orders.created.tsx\<close>,
  \<^verbatim>\<open>app/utils/notifications.server.ts\<close> and
  \<^verbatim>\<open>app/utils/websocket.server.ts\<close>.

  Conventions.
  \<^item> A value that may be \<^verbatim>\<open>undefined\<close> or \<^verbatim>\<open>null\<close> is an \<open>option\<close>; the two are not
    told apart (the code tells them apart nowhere but in \<^verbatim>\<open>!==\<close> on address fields,
    which Shopify always sends, as a string or \<^verbatim>\<open>null\<close>).
  \<^item> The order payload is typed \<^verbatim>\<open>any\<close> in the source; it is modelled at the shape of
    Shopify's Order resource (strings where Shopify sends strings, objects where it sends
    objects), every field optional. Payloads of another shape (an e-mail that is a
    number, say) are outside the model.
  \<^item> A stored settings or trial document has its TypeScript type, every field present; the
    tenant without a document is \<open>None\<close>.
  \<^item> The reads and writes of the database do not fail.
  \<^item> Strings are byte strings; \<^verbatim>\<open>toLowerCase\<close> and white space are modelled on ASCII.
  \<^item> Library functions whose code is not part of the repository (the clock and time zone
    behind \<^verbatim>\<open>Date.getHours\<close>, HMAC-SHA256, \<^verbatim>\<open>JSON.parse\<close>, the environment) are
    parameters, collected in the record \<open>Runtime\<close>.
\<close>

subsection \<open>JavaScript helpers\<close>

text \<open>A JavaScript string is truthy iff it is present and not empty.\<close>

fun truthy :: "string option \<Rightarrow> bool" where
  "truthy None = False"
| "truthy (Some s) = (s \<noteq> [])"

text \<open>\<^verbatim>\<open>String.prototype.toLowerCase\<close>, on ASCII letters.\<close>

definition toLowerChar :: "char \<Rightarrow> char" where
  "toLowerChar c =
     (let n = (of_char c :: nat) in if 65 \<le> n \<and> n \<le> 90 then char_of (n + 32) else c)"

definition toLowerCase :: "string \<Rightarrow> string" where
  "toLowerCase s = map toLowerChar s"

text \<open>\<^verbatim>\<open>s.split(sep)\<close> for a one-character separator: never the empty array.\<close>

fun split_js :: "char \<Rightarrow> string \<Rightarrow> string list" where
  "split_js sep [] = [[]]"
| "split_js sep (c # cs) =
     (if c = sep then [] # split_js sep cs
      else (case split_js sep cs of
              [] \<Rightarrow> [[c]]
            | w # ws \<Rightarrow> (c # w) # ws))"

text \<open>\<^verbatim>\<open>xs[i]\<close>: \<^verbatim>\<open>undefined\<close> out of range.\<close>

fun index_js :: "'a list \<Rightarrow> nat \<Rightarrow> 'a option" where
  "index_js [] i = None"
| "index_js (x # xs) 0 = Some x"
| "index_js (x # xs) (Suc i) = index_js xs i"

text \<open>\<^verbatim>\<open>s.includes(sub)\<close> on strings.\<close>

fun startsWith :: "string \<Rightarrow> string \<Rightarrow> bool" where
  "startsWith s [] = True"
| "startsWith [] (p # ps) = False"
| "startsWith (c # cs) (p # ps) = (c = p \<and> startsWith cs ps)"

fun includes_js :: "string \<Rightarrow> string \<Rightarrow> bool" where
  "includes_js [] sub = (sub = [])"
| "includes_js (c # cs) sub = (startsWith (c # cs) sub \<or> includes_js cs sub)"

subsection \<open>\<^verbatim>\<open>parseFloat\<close>\<close>

text \<open>
  The result of \<^verbatim>\<open>parseFloat\<close>: \<^verbatim>\<open>NaN\<close>, an infinity (\<open>True\<close> for the negative one)
  or a finite number. The finite value is kept exact: the rounding of the decimal to a
  double is not modelled. The score only compares the value with 1000 and 500, so the
  rounding can matter only for a decimal that is not 1000 (or 500) and lies within
  \<open>2\<^sup>-\<^sup>4\<^sup>4\<close> of it.
\<close>

datatype jsnum = NaN | Infinity bool | Finite rat

text \<open>\<^verbatim>\<open>x > c\<close> for a finite constant \<open>c\<close>: false on \<^verbatim>\<open>NaN\<close>.\<close>

fun gt_js :: "jsnum \<Rightarrow> rat \<Rightarrow> bool" where
  "gt_js NaN c = False"
| "gt_js (Infinity neg) c = (\<not> neg)"
| "gt_js (Finite r) c = (r > c)"

definition isWhiteSpace :: "char \<Rightarrow> bool" where
  "isWhiteSpace c = ((of_char c :: nat) \<in> {9, 10, 11, 12, 13, 32})"

definition digitVal :: "char \<Rightarrow> nat option" where
  "digitVal c =
     (let n = (of_char c :: nat) in if 48 \<le> n \<and> n \<le> 57 then Some (n - 48) else None)"

text \<open>
  \<open>takeDigits acc k s\<close> reads the longest run of decimal digits at the head of \<open>s\<close>:
  the number read so far (starting from \<open>acc\<close>), how many digits (starting from \<open>k\<close>),
  and the rest of the string.
\<close>

fun takeDigits :: "nat \<Rightarrow> nat \<Rightarrow> string \<Rightarrow> nat \<times> nat \<times> string" where
  "takeDigits acc k [] = (acc, k, [])"
| "takeDigits acc k (c # cs) =
     (case digitVal c of
        None \<Rightarrow> (acc, k, c # cs)
      | Some d \<Rightarrow> takeDigits (10 * acc + d) (Suc k) cs)"

text \<open>The optional sign of a literal or of an exponent: is it negative, and the rest.\<close>

fun takeSign :: "string \<Rightarrow> bool \<times> string" where
  "takeSign [] = (False, [])"
| "takeSign (c # cs) =
     (if c = CHR ''-'' then (True, cs)
      else if c = CHR ''+'' then (False, cs)
      else (False, c # cs))"

text \<open>
  The exponent part \<^verbatim>\<open>[eE][+-]?digits\<close> when the rest of the string starts with one,
  and 0 otherwise (an \<^verbatim>\<open>e\<close> with no digit after it is not part of the literal).
\<close>

fun takeExponent :: "string \<Rightarrow> int" where
  "takeExponent [] = 0"
| "takeExponent (c # cs) =
     (if c = CHR ''e'' \<or> c = CHR ''E'' then
        (case takeSign cs of
           (neg, rest) \<Rightarrow>
             (case takeDigits 0 0 rest of
                (e, k, _) \<Rightarrow> if k = 0 then 0 else if neg then - int e else int e))
      else 0)"

definition scale10 :: "rat \<Rightarrow> int \<Rightarrow> rat" where
  "scale10 r e = (if e < 0 then r / 10 ^ nat (- e) else r * 10 ^ nat e)"

text \<open>
  \<^verbatim>\<open>parseFloat(s)\<close>: skip leading white space, then take the longest prefix that is a
  \<^verbatim>\<open>StrDecimalLiteral\<close> (sign, then \<^verbatim>\<open>Infinity\<close>, or digits with an optional fraction
  and exponent); \<^verbatim>\<open>NaN\<close> when there is none.
\<close>

definition parseFloat :: "string \<Rightarrow> jsnum" where
  "parseFloat s =
     (case takeSign (dropWhile isWhiteSpace s) of
        (neg, body) \<Rightarrow>
          if startsWith body ''Infinity'' then Infinity neg
          else
            (case takeDigits 0 0 body of
               (ip, ik, rest) \<Rightarrow>
                 (case rest of
                    [] \<Rightarrow> if ik = 0 then NaN
                          else Finite ((if neg then - 1 else 1) * of_nat ip)
                  | c # cs \<Rightarrow>
                      if c = CHR ''.'' then
                        (case takeDigits 0 0 cs of
                           (fp, fk, rest') \<Rightarrow>
                             if ik = 0 \<and> fk = 0 then NaN
                             else Finite
                               ((if neg then - 1 else 1) *
                                scale10 (of_nat ip + of_nat fp / 10 ^ fk) (takeExponent rest')))
                      else if ik = 0 then NaN
                      else Finite
                        ((if neg then - 1 else 1) * scale10 (of_nat ip) (takeExponent rest)))))"

text \<open>\<^verbatim>\<open>ToString\<close> of an optional string: \<^verbatim>\<open>undefined\<close> prints as its name.\<close>

fun toString_js :: "string option \<Rightarrow> string" where
  "toString_js None = ''undefined''"
| "toString_js (Some s) = s"

subsection \<open>Data model\<close>

text \<open>The types \<^verbatim>\<open>StoreSettings\<close> and \<^verbatim>\<open>TrialStatus\<close> of \<^verbatim>\<open>app/models/store.server.ts\<close>.\<close>

record RiskThresholds =
  high :: int
  medium :: int

record RiskFactors =
  orderValue :: bool
  customerHistory :: bool
  ipLocation :: bool
  checkoutSpeed :: bool
  addressMismatch :: bool
  emailDomain :: bool
  orderTime :: bool
  giftCardUse :: bool
  quantitySpike :: bool

record EmailSettings =
  enabled :: bool
  address :: string

text \<open>The field \<^verbatim>\<open>slack.enabled\<close> is \<open>slackEnabled\<close>: field names are global.\<close>

record SlackSettings =
  slackEnabled :: bool
  webhookUrl :: string

datatype Frequency = Immediate | Hourly | Daily

record Notifications =
  email :: EmailSettings
  slack :: SlackSettings
  frequency :: Frequency

record Automations =
  holdHighRiskOrders :: bool
  emailVerification :: bool
  cancelHighRiskOrders :: bool
  customEmail :: bool
  flagForReview :: bool
  customEmailTemplate :: "string option"

record StoreSettings =
  riskThresholds :: RiskThresholds
  riskFactors :: RiskFactors
  notifications :: Notifications
  automations :: Automations

datatype Plan = Free | Pro | Business

record TrialStatus =
  isActive :: bool
  daysRemaining :: int
  plan :: Plan

text \<open>
  The fields of the Shopify order payload that the code reads. \<open>order_id\<close> is the
  payload's \<^verbatim>\<open>id\<close> and \<open>item_id\<close> a line item's \<^verbatim>\<open>id\<close>, each as \<^verbatim>\<open>toString()\<close>
  prints it; \<open>client_browser_ip\<close> is \<^verbatim>\<open>client_details.browser_ip\<close>; \<open>customer_email\<close>
  is \<^verbatim>\<open>customer.email\<close>.
\<close>

record Address =
  zip :: "string option"
  city :: "string option"
  country :: "string option"

record Customer =
  customer_email :: "string option"

record LineItem =
  item_id :: "string option"

record ShopifyOrder =
  order_id :: "string option"
  name :: "string option"
  order_number :: "string option"
  total_price :: "string option"
  billing_address :: "Address option"
  shipping_address :: "Address option"
  customer :: "Customer option"
  browser_ip :: "string option"
  client_browser_ip :: "string option"
  created_at :: "string option"
  payment_gateway_names :: "string list option"
  line_items :: "LineItem list option"

datatype RiskLevel = Low | Medium | High

datatype OrderStatus = Approved | Pending | Declined | OnHold

text \<open>The object \<^verbatim>\<open>analyzeOrderRisk\<close> returns (\<^verbatim>\<open>checkoutSpeed\<close> is always \<^verbatim>\<open>undefined\<close>).\<close>

record RiskAnalysis =
  score :: int
  level :: RiskLevel
  factors :: "string list"
  reviewed :: bool
  status :: OrderStatus
  ipAddress :: "string option"

text \<open>
  What the repository takes from its platform. \<open>getHours s\<close> is
  \<^verbatim>\<open>new Date(s).getHours()\<close>, the hour in the server's time zone, \<open>None\<close> when the date
  is invalid (\<^verbatim>\<open>NaN\<close>); \<open>hmacSha256Base64 key body\<close> is the base64 HMAC-SHA256 digest;
  \<open>jsonParse\<close> is \<^verbatim>\<open>JSON.parse\<close> read at the order shape (it throws, or yields
  \<^verbatim>\<open>null\<close>, or a payload); \<open>SHOPIFY_API_SECRET\<close> is the environment variable.
\<close>

datatype Parsed = Throws | Null | Payload ShopifyOrder

record Runtime =
  getHours :: "string \<Rightarrow> nat option"
  hmacSha256Base64 :: "string \<Rightarrow> string \<Rightarrow> string"
  jsonParse :: "string \<Rightarrow> Parsed"
  SHOPIFY_API_SECRET :: "string option"

subsection \<open>The scoring engine: \<^verbatim>\<open>analyzeOrderRisk\<close>\<close>

record RiskFactorResult =
  factor :: string
  description :: string
  riskContribution :: int

text \<open>The two accumulators of the function: \<^verbatim>\<open>riskFactors\<close> and \<^verbatim>\<open>totalRiskScore\<close>.\<close>

type_synonym Scoring = "RiskFactorResult list \<times> int"

text \<open>\<^verbatim>\<open>riskFactors.push({factor, description, riskContribution}); totalRiskScore += ...\<close>\<close>

definition push :: "string \<Rightarrow> string \<Rightarrow> int \<Rightarrow> Scoring \<Rightarrow> Scoring" where
  "push f d c st =
     (fst st @ [\<lparr>factor = f, description = d, riskContribution = c\<rparr>], snd st + c)"

definition defaultRiskThresholds :: RiskThresholds where
  "defaultRiskThresholds = \<lparr>high = 75, medium = 50\<rparr>"

definition defaultEnabledFactors :: RiskFactors where
  "defaultEnabledFactors =
     \<lparr>orderValue = True, customerHistory = True, ipLocation = True, checkoutSpeed = True,
      addressMismatch = True, emailDomain = True, orderTime = True, giftCardUse = True,
      quantitySpike = True\<rparr>"

definition freePlanFactors :: RiskFactors where
  "freePlanFactors =
     \<lparr>orderValue = True, customerHistory = False, ipLocation = False, checkoutSpeed = False,
      addressMismatch = True, emailDomain = True, orderTime = False, giftCardUse = False,
      quantitySpike = False\<rparr>"

text \<open>
  \<^verbatim>\<open>trialStatus?.isActive || trialStatus?.plan === 'pro' || trialStatus?.plan === 'business'\<close>
\<close>

fun isPro :: "TrialStatus option \<Rightarrow> bool" where
  "isPro None = False"
| "isPro (Some t) = (isActive t \<or> plan t = Pro \<or> plan t = Business)"

definition checkOrderValue :: "RiskFactors \<Rightarrow> ShopifyOrder \<Rightarrow> Scoring \<Rightarrow> Scoring" where
  "checkOrderValue factorsToCheck order st =
     (if orderValue factorsToCheck then
        (let totalPrice = parseFloat (toString_js (total_price order)) in
         if gt_js totalPrice 1000 then push ''orderValue'' ''High value order'' 20 st
         else if gt_js totalPrice 500 then push ''orderValue'' ''Medium-high value order'' 10 st
         else st)
      else st)"

definition checkAddressMismatch :: "RiskFactors \<Rightarrow> ShopifyOrder \<Rightarrow> Scoring \<Rightarrow> Scoring" where
  "checkAddressMismatch factorsToCheck order st =
     (if addressMismatch factorsToCheck \<and> billing_address order \<noteq> None \<and>
         shipping_address order \<noteq> None then
        (let billing = the (billing_address order);
             shipping = the (shipping_address order)
         in if zip billing \<noteq> zip shipping \<or> city billing \<noteq> city shipping \<or>
               country billing \<noteq> country shipping
            then push ''addressMismatch'' ''Billing and shipping addresses don't match'' 15 st
            else st)
      else st)"

definition suspiciousDomains :: "string list" where
  "suspiciousDomains =
     [''tempmail.com'', ''throwawaymail.com'', ''mailinator.com'',
      ''guerrillamail.com'', ''yopmail.com'', ''sharklasers.com'']"

definition checkEmailDomain :: "RiskFactors \<Rightarrow> ShopifyOrder \<Rightarrow> Scoring \<Rightarrow> Scoring" where
  "checkEmailDomain factorsToCheck order st =
     (if emailDomain factorsToCheck \<and> customer order \<noteq> None \<and>
         truthy (customer_email (the (customer order))) then
        (let email = toLowerCase (the (customer_email (the (customer order))));
             domain = index_js (split_js CHR ''@'' email) 1
         in if truthy domain \<and> List.member suspiciousDomains (the domain)
            then push ''emailDomain'' ''Suspicious email domain'' 25 st
            else st)
      else st)"

definition checkIpLocation :: "RiskFactors \<Rightarrow> ShopifyOrder \<Rightarrow> Scoring \<Rightarrow> Scoring" where
  "checkIpLocation factorsToCheck order st =
     (if ipLocation factorsToCheck \<and> truthy (browser_ip order)
      then push ''ipLocation'' ''IP address tracking enabled'' 5 st
      else st)"

definition checkOrderTime ::
  "Runtime \<Rightarrow> RiskFactors \<Rightarrow> ShopifyOrder \<Rightarrow> Scoring \<Rightarrow> Scoring" where
  "checkOrderTime rt factorsToCheck order st =
     (if orderTime factorsToCheck \<and> truthy (created_at order) then
        (case getHours rt (the (created_at order)) of
           None \<Rightarrow> st
         | Some hourOfDay \<Rightarrow>
             if hourOfDay \<ge> 22 \<or> hourOfDay \<le> 4
             then push ''orderTime'' ''Order placed during unusual hours'' 10 st
             else st)
      else st)"

definition checkGiftCardUse :: "RiskFactors \<Rightarrow> ShopifyOrder \<Rightarrow> Scoring \<Rightarrow> Scoring" where
  "checkGiftCardUse factorsToCheck order st =
     (if giftCardUse factorsToCheck \<and> payment_gateway_names order \<noteq> None then
        (if list_ex (\<lambda>method. includes_js (toLowerCase method) ''gift'')
              (the (payment_gateway_names order))
         then push ''giftCardUse'' ''Payment with gift card'' 15 st
         else st)
      else st)"

text \<open>The block \<^verbatim>\<open>if (isPro) { ... }\<close> of the three pro-plan checks.\<close>

definition checkProFactors ::
  "Runtime \<Rightarrow> bool \<Rightarrow> RiskFactors \<Rightarrow> ShopifyOrder \<Rightarrow> Scoring \<Rightarrow> Scoring" where
  "checkProFactors rt pro factorsToCheck order st =
     (if pro then
        checkGiftCardUse factorsToCheck order
          (checkOrderTime rt factorsToCheck order
            (checkIpLocation factorsToCheck order st))
      else st)"

text \<open>The accumulators after all the checks, from \<^verbatim>\<open>riskFactors = []; totalRiskScore = 0\<close>.\<close>

definition collectRiskFactors ::
  "Runtime \<Rightarrow> StoreSettings option \<Rightarrow> TrialStatus option \<Rightarrow> ShopifyOrder \<Rightarrow> Scoring" where
  "collectRiskFactors rt storeSettings trialStatus order =
     (let enabledFactors =
            (case storeSettings of None \<Rightarrow> defaultEnabledFactors | Some s \<Rightarrow> riskFactors s);
          factorsToCheck = (if isPro trialStatus then enabledFactors else freePlanFactors)
      in checkProFactors rt (isPro trialStatus) factorsToCheck order
           (checkEmailDomain factorsToCheck order
             (checkAddressMismatch factorsToCheck order
               (checkOrderValue factorsToCheck order ([], 0)))))"

definition riskLevelOf :: "RiskThresholds \<Rightarrow> int \<Rightarrow> RiskLevel" where
  "riskLevelOf thresholds totalRiskScore =
     (if totalRiskScore \<ge> high thresholds then High
      else if totalRiskScore \<ge> medium thresholds then Medium
      else Low)"

text \<open>\<^verbatim>\<open>storeSettings?.automations?.f\<close>: falsy when there are no settings.\<close>

fun automation :: "StoreSettings option \<Rightarrow> (Automations \<Rightarrow> bool) \<Rightarrow> bool" where
  "automation None f = False"
| "automation (Some s) f = f (automations s)"

definition statusOf :: "StoreSettings option \<Rightarrow> RiskLevel \<Rightarrow> OrderStatus" where
  "statusOf storeSettings riskLevel =
     (if riskLevel = High \<and> automation storeSettings holdHighRiskOrders then OnHold
      else if riskLevel = High \<and> automation storeSettings flagForReview then Pending
      else if riskLevel = High \<and> automation storeSettings cancelHighRiskOrders then Declined
      else Approved)"

text \<open>\<^verbatim>\<open>a || b\<close> on optional strings.\<close>

definition or_js :: "string option \<Rightarrow> string option \<Rightarrow> string option" where
  "or_js a b = (if truthy a then a else b)"

text \<open>
  The body of \<^verbatim>\<open>analyzeOrderRisk\<close> after its two reads, \<open>storeSettings\<close> and
  \<open>trialStatus\<close> being what \<^verbatim>\<open>getStoreSettings\<close> and \<^verbatim>\<open>getTrialStatus\<close> returned.
\<close>

definition riskAnalysisOf ::
  "Runtime \<Rightarrow> StoreSettings option \<Rightarrow> TrialStatus option \<Rightarrow> ShopifyOrder \<Rightarrow> RiskAnalysis" where
  "riskAnalysisOf rt storeSettings trialStatus order =
     (let thresholds =
            (case storeSettings of None \<Rightarrow> defaultRiskThresholds | Some s \<Rightarrow> riskThresholds s);
          st = collectRiskFactors rt storeSettings trialStatus order;
          totalRiskScore = snd st;
          riskLevel = riskLevelOf thresholds totalRiskScore
      in \<lparr>score = totalRiskScore,
          level = riskLevel,
          factors = map description (fst st),
          reviewed = False,
          status = statusOf storeSettings riskLevel,
          ipAddress = or_js (browser_ip order) (client_browser_ip order)\<rparr>)"

subsection \<open>The database\<close>

text \<open>
  The three collections the pipeline touches. \<^verbatim>\<open>findOne({shopId})\<close> on the settings and
  trial collections is a lookup by shop; the orders collection is a list of documents, the
  newest last.
\<close>

record Order =
  shopId :: string
  orderId :: string
  orderNumber :: string
  riskAnalysis :: RiskAnalysis

record Database =
  storeSettingsColl :: "string \<Rightarrow> StoreSettings option"
  trialStatusColl :: "string \<Rightarrow> TrialStatus option"
  ordersColl :: "Order list"

definition getStoreSettings :: "Database \<Rightarrow> string \<Rightarrow> StoreSettings option" where
  "getStoreSettings db shop = storeSettingsColl db shop"

definition getTrialStatus :: "Database \<Rightarrow> string \<Rightarrow> TrialStatus option" where
  "getTrialStatus db shop = trialStatusColl db shop"

definition analyzeOrderRisk :: "Runtime \<Rightarrow> Database \<Rightarrow> ShopifyOrder \<Rightarrow> string \<Rightarrow> RiskAnalysis" where
  "analyzeOrderRisk rt db order shop =
     riskAnalysisOf rt (getStoreSettings db shop) (getTrialStatus db shop) order"

subsection \<open>Observable effects\<close>

text \<open>
  Connections are numbered. One constructor of \<open>Console\<close> per message the code prints; an
  effect is a console line, a call of \<^verbatim>\<open>sendEmailNotification\<close> or
  \<^verbatim>\<open>sendSlackNotification\<close> (both only print), the \<^verbatim>\<open>insertOne\<close> of \<^verbatim>\<open>createOrder\<close>,
  or a \<^verbatim>\<open>socket.send\<close> / \<^verbatim>\<open>socket.close\<close> of the broadcast channel.
\<close>

type_synonym Socket = nat

datatype Console =
    InvalidWebhookSignature
  | MissingShopDomain
  | ReceivedWebhook "string option" string
  | OrderReceived "string option"
  | AnalyzingOrderRisk string
  | RiskAnalysisResult RiskAnalysis
  | OrderSaved
  | OrderAnalysisSummary "string option" RiskAnalysis
  | CouldNotFindSavedOrder
  | ErrorProcessingWebhookPayload
  | NoNotificationNeeded string
  | NoNotificationSettings string
  | FreePlanHighRiskOnly
  | NotificationQueued Frequency
  | NotificationsSent string
  | WsNoShopId
  | WsConnected string
  | WsDisconnected string
  | WsError string
  | Broadcasted nat string

datatype Message = ConnectionAck | UpdateNewOrder Order

datatype Effect =
    Log Console
  | EmailNotification string Order "string option"
  | SlackNotification string Order
  | InsertOne Order
  | SocketSend Socket Message
  | SocketClose Socket nat

fun isDispatch :: "Effect \<Rightarrow> bool" where
  "isDispatch (EmailNotification a ord t) = True"
| "isDispatch (SlackNotification u ord) = True"
| "isDispatch e = False"

fun isInsertOne :: "Effect \<Rightarrow> bool" where
  "isInsertOne (InsertOne ord) = True"
| "isInsertOne e = False"

fun isSocketSend :: "Effect \<Rightarrow> bool" where
  "isSocketSend (SocketSend sock m) = True"
| "isSocketSend e = False"

subsection \<open>The notification dispatcher: \<^verbatim>\<open>sendRiskNotifications\<close>\<close>

text \<open>
  The reads of the database do not fail in this model, so the \<^verbatim>\<open>catch\<close> of the function
  is not reached.
\<close>

definition sendRiskNotifications :: "Database \<Rightarrow> Order \<Rightarrow> string \<Rightarrow> Effect list" where
  "sendRiskNotifications db order shop =
     (let storeSettings = getStoreSettings db shop;
          trialStatus = getTrialStatus db shop;
          pro = isPro trialStatus
      in if level (riskAnalysis order) \<noteq> High \<and> level (riskAnalysis order) \<noteq> Medium
         then [Log (NoNotificationNeeded (orderNumber order))]
         else
           (case storeSettings of
              None \<Rightarrow> [Log (NoNotificationSettings shop)]
            | Some s \<Rightarrow>
                (let n = notifications s
                 in if \<not> pro \<and> level (riskAnalysis order) \<noteq> High
                    then [Log FreePlanHighRiskOnly]
                    else if frequency n \<noteq> Immediate
                    then [Log (NotificationQueued (frequency n))]
                    else
                      (if enabled (email n) \<and> address (email n) \<noteq> []
                       then [EmailNotification (address (email n)) order
                               (customEmailTemplate (automations s))]
                       else []) @
                      (if pro \<and> slackEnabled (slack n) \<and> webhookUrl (slack n) \<noteq> []
                       then [SlackNotification (webhookUrl (slack n)) order]
                       else []) @
                      [Log (NotificationsSent (orderNumber order))])))"

subsection \<open>The webhook handler: \<^verbatim>\<open>processWebhook\<close>\<close>

record Request =
  headers :: "string \<Rightarrow> string option"

text \<open>
  \<^verbatim>\<open>mapShopifyOrderToModel\<close>: \<open>None\<close> is the \<^verbatim>\<open>TypeError\<close> of \<^verbatim>\<open>order.id.toString()\<close>
  or \<^verbatim>\<open>item.id.toString()\<close> on a missing id. Of the document it builds, the fields
  the pipeline reads later are kept.
\<close>

definition mapShopifyOrderToModel ::
  "ShopifyOrder \<Rightarrow> string \<Rightarrow> RiskAnalysis \<Rightarrow> Order option" where
  "mapShopifyOrderToModel order shop ra =
     (if order_id order = None then None
      else if list_ex (\<lambda>item. item_id item = None)
                (case line_items order of None \<Rightarrow> [] | Some items \<Rightarrow> items)
      then None
      else Some
        \<lparr>shopId = shop,
         orderId = the (order_id order),
         orderNumber =
           (if truthy (order_number order) then the (order_number order)
            else if truthy (map_option (remove1 CHR ''#'') (name order))
            then remove1 CHR ''#'' (the (name order))
            else []),
         riskAnalysis = ra\<rparr>)"

definition createOrder :: "Database \<Rightarrow> Order \<Rightarrow> Database" where
  "createOrder db order = db\<lparr>ordersColl := ordersColl db @ [order]\<rparr>"

definition getOrderById :: "Database \<Rightarrow> string \<Rightarrow> string \<Rightarrow> Order option" where
  "getOrderById db shop oid =
     find (\<lambda>ord. shopId ord = shop \<and> orderId ord = oid) (ordersColl db)"

text \<open>The part of \<^verbatim>\<open>processWebhook\<close> inside \<^verbatim>\<open>try\<close>, once the payload is parsed.\<close>

definition processPayload ::
  "Runtime \<Rightarrow> Request \<Rightarrow> ShopifyOrder option \<Rightarrow> Database \<Rightarrow> Effect list \<times> Database" where
  "processPayload rt request parsed db =
     (let shop = headers request ''x-shopify-shop-domain'';
          topic = headers request ''x-shopify-topic''
      in if \<not> truthy shop then ([Log MissingShopDomain], db)
         else
           (case parsed of
              None \<Rightarrow>
                ([Log (ReceivedWebhook topic (the shop)), Log ErrorProcessingWebhookPayload], db)
            | Some payload \<Rightarrow>
                (let sid = the shop;
                     riskAnalysis = analyzeOrderRisk rt db payload sid;
                     before =
                       [Log (ReceivedWebhook topic sid),
                        Log (OrderReceived (or_js (name payload) (order_id payload))),
                        Log (AnalyzingOrderRisk sid),
                        Log (RiskAnalysisResult riskAnalysis)]
                 in case mapShopifyOrderToModel payload sid riskAnalysis of
                      None \<Rightarrow> (before @ [Log ErrorProcessingWebhookPayload], db)
                    | Some orderData \<Rightarrow>
                        (let db' = createOrder db orderData;
                             saved =
                               [InsertOne orderData, Log OrderSaved,
                                Log (OrderAnalysisSummary
                                       (or_js (name payload) (order_id payload)) riskAnalysis)]
                         in case getOrderById db' sid (the (order_id payload)) of
                              Some savedOrder \<Rightarrow>
                                (before @ saved @ sendRiskNotifications db' savedOrder sid,
                                 db')
                            | None \<Rightarrow>
                                (before @ saved @ [Log CouldNotFindSavedOrder], db')))))"

text \<open>\<^verbatim>\<open>process.env.SHOPIFY_API_SECRET || ""\<close>\<close>

definition secretKey :: "Runtime \<Rightarrow> string" where
  "secretKey rt = (if truthy (SHOPIFY_API_SECRET rt) then the (SHOPIFY_API_SECRET rt) else [])"

definition processWebhook ::
  "Runtime \<Rightarrow> Request \<Rightarrow> string \<Rightarrow> Database \<Rightarrow> Effect list \<times> Database" where
  "processWebhook rt request rawPayload db =
     (let signature = headers request ''x-shopify-hmac-sha256'';
          generatedSignature = hmacSha256Base64 rt (secretKey rt) rawPayload
      in if truthy signature \<and> the signature \<noteq> generatedSignature
         then ([Log InvalidWebhookSignature], db)
         else
           (case jsonParse rt rawPayload of
              Throws \<Rightarrow> ([Log ErrorProcessingWebhookPayload], db)
            | Null \<Rightarrow> processPayload rt request None db
            | Payload payload \<Rightarrow> processPayload rt request (Some payload) db))"

subsection \<open>The broadcast channel\<close>

text \<open>
  \<^verbatim>\<open>shopConnections\<close> is a plain object, \<^verbatim>\<open>{}\<close>: its own properties map a shop to its
  \<^verbatim>\<open>Set\<close> of sockets (here a list without repetition, in insertion order), and it
  inherits the members of \<^verbatim>\<open>Object.prototype\<close>. So \<^verbatim>\<open>shopConnections[shopId]\<close> is the
  shop's own set, or \<^verbatim>\<open>undefined\<close>, or, for a name that \<^verbatim>\<open>Object.prototype\<close> defines,
  the inherited member: a function (the prototype itself for \<^verbatim>\<open>__proto__\<close>), which is
  truthy and has no \<^verbatim>\<open>add\<close>, \<^verbatim>\<open>delete\<close>, \<^verbatim>\<open>forEach\<close> or \<^verbatim>\<open>size\<close>. Calling one of
  these on it raises a \<^verbatim>\<open>TypeError\<close>.

  \<open>handlers\<close> lists, for each socket, the \<^verbatim>\<open>shopId\<close>s that the \<^verbatim>\<open>close\<close> and \<^verbatim>\<open>error\<close>
  listeners registered on it closed over, in the order of registration; \<open>readyState\<close> is
  the library's state of a socket (1 is OPEN).
\<close>

datatype JsError = TypeError

definition objectPrototypeKeys :: "string list" where
  "objectPrototypeKeys =
     [''constructor'', ''__defineGetter__'', ''__defineSetter__'', ''hasOwnProperty'',
      ''__lookupGetter__'', ''__lookupSetter__'', ''isPrototypeOf'',
      ''propertyIsEnumerable'', ''toString'', ''valueOf'', ''__proto__'',
      ''toLocaleString'']"

record WsState =
  shopConnections :: "string \<Rightarrow> Socket list option"
  handlers :: "Socket \<Rightarrow> string list"
  readyState :: "Socket \<Rightarrow> nat"

datatype Property = Undefined | Inherited | Own "Socket list"

text \<open>\<^verbatim>\<open>shopConnections[shopId]\<close>\<close>

definition getConnections :: "WsState \<Rightarrow> string \<Rightarrow> Property" where
  "getConnections ws sid =
     (case shopConnections ws sid of
        Some xs \<Rightarrow> Own xs
      | None \<Rightarrow> if List.member objectPrototypeKeys sid then Inherited else Undefined)"

datatype WsEvent =
    Connection Socket "string option"
  | Close Socket
  | Error Socket

definition set_add :: "Socket \<Rightarrow> Socket list \<Rightarrow> Socket list" where
  "set_add sock xs = (if List.member xs sock then xs else xs @ [sock])"

definition set_delete :: "Socket \<Rightarrow> Socket list \<Rightarrow> Socket list" where
  "set_delete sock xs = removeAll sock xs"

text \<open>
  The \<^verbatim>\<open>connection\<close> handler of \<^verbatim>\<open>initializeWebSocketServer\<close>: what it prints and sends,
  and the state it leaves, or the error it raises. The error comes before anything is
  registered: after the line \<^verbatim>\<open>WebSocket connected\<close>, at \<^verbatim>\<open>.add(socket)\<close>.
\<close>

definition onConnection ::
  "Socket \<Rightarrow> string option \<Rightarrow> WsState \<Rightarrow> Effect list \<times> (JsError + WsState)" where
  "onConnection sock shop ws =
     (if \<not> truthy shop then ([Log WsNoShopId, SocketClose sock 1003], Inr ws)
      else
        (let sid = the shop
         in case getConnections ws sid of
              Inherited \<Rightarrow> ([Log (WsConnected sid)], Inl TypeError)
            | Undefined \<Rightarrow>
                ([Log (WsConnected sid), SocketSend sock ConnectionAck],
                 Inr (ws\<lparr>shopConnections := (shopConnections ws)(sid \<mapsto> set_add sock []),
                         handlers := (handlers ws)(sock := handlers ws sock @ [sid])\<rparr>))
            | Own xs \<Rightarrow>
                ([Log (WsConnected sid), SocketSend sock ConnectionAck],
                 Inr (ws\<lparr>shopConnections := (shopConnections ws)(sid \<mapsto> set_add sock xs),
                         handlers := (handlers ws)(sock := handlers ws sock @ [sid])\<rparr>))))"

text \<open>
  The \<^verbatim>\<open>close\<close> listener that closed over \<open>sid\<close>:
  \<^verbatim>\<open>shopConnections[shopId]?.delete(socket)\<close>, then the entry is deleted when its set is
  empty.
\<close>

definition onClose ::
  "Socket \<Rightarrow> string \<Rightarrow> WsState \<Rightarrow> Effect list \<times> (JsError + WsState)" where
  "onClose sock sid ws =
     (case getConnections ws sid of
        Undefined \<Rightarrow> ([Log (WsDisconnected sid)], Inr ws)
      | Inherited \<Rightarrow> ([Log (WsDisconnected sid)], Inl TypeError)
      | Own xs \<Rightarrow>
          ([Log (WsDisconnected sid)],
           Inr (if set_delete sock xs = []
                then ws\<lparr>shopConnections := (shopConnections ws)(sid := None)\<rparr>
                else ws\<lparr>shopConnections := (shopConnections ws)(sid \<mapsto> set_delete sock xs)\<rparr>)))"

text \<open>The \<^verbatim>\<open>error\<close> listener that closed over \<open>sid\<close>.\<close>

definition onError ::
  "Socket \<Rightarrow> string \<Rightarrow> WsState \<Rightarrow> Effect list \<times> (JsError + WsState)" where
  "onError sock sid ws = ([Log (WsError sid)], Inr ws)"

text \<open>
  An event of a socket runs the listeners registered for it, in order; a listener that
  raises ends the run.
\<close>

fun emit ::
  "(string \<Rightarrow> WsState \<Rightarrow> Effect list \<times> (JsError + WsState)) \<Rightarrow> string list \<Rightarrow> WsState \<Rightarrow>
   Effect list \<times> (JsError + WsState)" where
  "emit listener [] ws = ([], Inr ws)"
| "emit listener (sid # sids) ws =
     (case listener sid ws of
        (out, Inl err) \<Rightarrow> (out, Inl err)
      | (out, Inr ws') \<Rightarrow>
          (case emit listener sids ws' of (out', res) \<Rightarrow> (out @ out', res)))"

fun wsStep :: "WsEvent \<Rightarrow> WsState \<Rightarrow> Effect list \<times> (JsError + WsState)" where
  "wsStep (Connection sock shop) ws = onConnection sock shop ws"
| "wsStep (Close sock) ws = emit (onClose sock) (handlers ws sock) ws"
| "wsStep (Error sock) ws = emit (onError sock) (handlers ws sock) ws"

text \<open>
  A sequence of events. Nothing catches what a handler raises, so the first error ends
  the run (and the process).
\<close>

fun wsRun :: "WsEvent list \<Rightarrow> WsState \<Rightarrow> JsError + WsState" where
  "wsRun [] ws = Inr ws"
| "wsRun (e # es) ws =
     (case snd (wsStep e ws) of
        Inl err \<Rightarrow> Inl err
      | Inr ws' \<Rightarrow> wsRun es ws')"

text \<open>The module's initial state: \<^verbatim>\<open>shopConnections = {}\<close>, no socket yet.\<close>

definition wsInit :: "(Socket \<Rightarrow> nat) \<Rightarrow> WsState" where
  "wsInit rs = \<lparr>shopConnections = Map.empty, handlers = (\<lambda>sock. []), readyState = rs\<rparr>"


text \<open>
  \<^verbatim>\<open>broadcastUpdate\<close>: the messages it sends and the line it prints, or the error of
  \<^verbatim>\<open>connections.forEach\<close> on an inherited member (whose \<^verbatim>\<open>size\<close> is \<^verbatim>\<open>undefined\<close>, not 0).
\<close>

definition broadcastUpdate :: "WsState \<Rightarrow> string \<Rightarrow> Order \<Rightarrow> JsError + Effect list" where
  "broadcastUpdate ws sid orderData =
     (case getConnections ws sid of
        Undefined \<Rightarrow> Inr []
      | Inherited \<Rightarrow> Inl TypeError
      | Own connections \<Rightarrow>
          if connections = [] then Inr []
          else Inr (map (\<lambda>sock. SocketSend sock (UpdateNewOrder orderData))
                      (filter (\<lambda>sock. readyState ws sock = 1) connections)
                    @ [Log (Broadcasted (length connections) sid)]))"

definition notifyNewOrder :: "WsState \<Rightarrow> string \<Rightarrow> Order \<Rightarrow> JsError + Effect list" where
  "notifyNewOrder ws sid orderData = broadcastUpdate ws sid orderData"

subsection \<open>Notions used to state the properties\<close>

text \<open>What the entries of \<^verbatim>\<open>riskFactors\<close> named \<open>f\<close> add up to.\<close>

definition contributionOf :: "string \<Rightarrow> Scoring \<Rightarrow> int" where
  "contributionOf f st =
     sum_list (map riskContribution (filter (\<lambda>r. factor r = f) (fst st)))"

text \<open>
  The documents \<^verbatim>\<open>createDefaultStoreSettings\<close> and \<^verbatim>\<open>createDefaultTrialStatus\<close> insert,
  and the trial status \<^verbatim>\<open>startTrial\<close> sets (\<^verbatim>\<open>app/models/store.server.ts\<close>).
\<close>

definition defaultSettings :: StoreSettings where
  "defaultSettings =
     \<lparr>riskThresholds = \<lparr>high = 75, medium = 50\<rparr>,
      riskFactors =
        \<lparr>orderValue = True, customerHistory = True, ipLocation = True, checkoutSpeed = True,
         addressMismatch = True, emailDomain = True, orderTime = True, giftCardUse = True,
         quantitySpike = True\<rparr>,
      notifications =
        \<lparr>email = \<lparr>enabled = True, address = []\<rparr>,
         slack = \<lparr>slackEnabled = False, webhookUrl = []\<rparr>,
         frequency = Immediate\<rparr>,
      automations =
        \<lparr>holdHighRiskOrders = True, emailVerification = False, cancelHighRiskOrders = False,
         customEmail = False, flagForReview = True, customEmailTemplate = None\<rparr>\<rparr>"

definition defaultTrialStatus :: TrialStatus where
  "defaultTrialStatus = \<lparr>isActive = False, daysRemaining = 14, plan = Free\<rparr>"

definition updatedTrialStatus :: TrialStatus where
  "updatedTrialStatus = \<lparr>isActive = True, daysRemaining = 14, plan = Pro\<rparr>"

text \<open>
  A concrete delivery, used to run the definitions: an order of 1200.00 with billing in
  the US and shipping to Canada, a mailinator address, paid by gift card, placed at an
  hour the server reads as 23, with no browser IP.
\<close>

definition sampleOrder :: ShopifyOrder where
  "sampleOrder =
     \<lparr>order_id = Some ''5001'',
      name = Some ''#1001'',
      order_number = Some ''1001'',
      total_price = Some ''1200.00'',
      billing_address = Some \<lparr>zip = Some ''10001'', city = Some ''New York'', country = Some ''US''\<rparr>,
      shipping_address = Some \<lparr>zip = Some ''10001'', city = Some ''New York'', country = Some ''CA''\<rparr>,
      customer = Some \<lparr>customer_email = Some ''Bob@Mailinator.com''\<rparr>,
      browser_ip = None,
      client_browser_ip = None,
      created_at = Some ''2024-03-01T23:30:00'',
      payment_gateway_names = Some [''Gift Card''],
      line_items = Some [\<lparr>item_id = Some ''1''\<rparr>]\<rparr>"

definition sampleBody :: string where
  "sampleBody = ''{order 5001}''"

definition sampleRuntime :: Runtime where
  "sampleRuntime =
     \<lparr>getHours = (\<lambda>s. if s = ''2024-03-01T23:30:00'' then Some 23 else None),
      hmacSha256Base64 = (\<lambda>key body. ''mac:'' @ key @ '':'' @ body),
      jsonParse = (\<lambda>body. if body = sampleBody then Payload sampleOrder else Throws),
      SHOPIFY_API_SECRET = Some ''secret''\<rparr>"

definition sampleShop :: string where
  "sampleShop = ''demo.myshopify.com''"

definition sampleDb :: "TrialStatus \<Rightarrow> Database" where
  "sampleDb t =
     \<lparr>storeSettingsColl = [sampleShop \<mapsto> defaultSettings],
      trialStatusColl = [sampleShop \<mapsto> t],
      ordersColl = []\<rparr>"

text \<open>
  The sample delivery's request, signed; the same request with an empty signature header;
  and a dashboard (socket 7, open) attached to the sample shop.
\<close>

definition sampleRequest :: Request where
  "sampleRequest =
     \<lparr>headers =
        [''x-shopify-hmac-sha256'' \<mapsto> ''mac:secret:{order 5001}'',
         ''x-shopify-shop-domain'' \<mapsto> sampleShop,
         ''x-shopify-topic'' \<mapsto> ''orders/create'']\<rparr>"

definition emptySignatureRequest :: Request where
  "emptySignatureRequest =
     \<lparr>headers =
        [''x-shopify-hmac-sha256'' \<mapsto> [],
         ''x-shopify-shop-domain'' \<mapsto> sampleShop,
         ''x-shopify-topic'' \<mapsto> ''orders/create'']\<rparr>"

definition sampleWs :: WsState where
  "sampleWs =
     \<lparr>shopConnections = [sampleShop \<mapsto> [7]],
      handlers = (\<lambda>sock. [])(7 := [sampleShop]),
      readyState = (\<lambda>sock. 1)\<rparr>"



text \<open>
  The order document the sample delivery stores for a pro tenant, an order document with a
  low verdict and one with a medium verdict, a tampered body, and a sequence of channel
  events.
\<close>

definition sampleSaved :: Order where
  "sampleSaved =
     \<lparr>shopId = sampleShop, orderId = ''5001'', orderNumber = ''1001'',
      riskAnalysis =
        \<lparr>score = 85, level = High,
         factors = [''High value order'', ''Billing and shipping addresses don't match'',
                    ''Suspicious email domain'', ''Order placed during unusual hours'',
                    ''Payment with gift card''],
         reviewed = False, status = OnHold, ipAddress = None\<rparr>\<rparr>"

definition lowOrder :: Order where
  "lowOrder = \<lparr>shopId = sampleShop, orderId = ''5002'', orderNumber = ''1002'',
     riskAnalysis = \<lparr>score = 20, level = Low, factors = [''High value order''],
       reviewed = False, status = Approved, ipAddress = None\<rparr>\<rparr>"

definition mediumOrder :: Order where
  "mediumOrder = \<lparr>shopId = sampleShop, orderId = ''5003'', orderNumber = ''1003'',
     riskAnalysis = \<lparr>score = 60, level = Medium,
       factors = [''High value order'', ''Billing and shipping addresses don't match'',
                  ''Suspicious email domain''],
       reviewed = False, status = Approved, ipAddress = None\<rparr>\<rparr>"

definition tamperedBody :: string where
  "tamperedBody = ''{order 5001, total 1}''"



section \<open>Properties\<close>

subsection \<open>Auxiliary facts about strings and numbers\<close>

lemma startsWith_append: "startsWith s (p @ q) \<Longrightarrow> startsWith s p"
  by (induction s p rule: startsWith.induct) auto

lemma startsWith_map: "startsWith s p \<Longrightarrow> startsWith (map f s) (map f p)"
  by (induction s p rule: startsWith.induct) auto

lemma includes_js_append: "includes_js s (p @ q) \<Longrightarrow> includes_js s p"
  by (induction s) (auto dest: startsWith_append)

lemma includes_js_map: "includes_js s p \<Longrightarrow> includes_js (map f s) (map f p)"
proof (induction s)
  case Nil
  then show ?case by simp
next
  case (Cons c cs)
  then show ?case
    using startsWith_map [of "c # cs" p f] by auto
qed

lemma lower_gift: "toLowerCase ''Gift'' = ''gift''"
  by code_simp

lemma includes_gift_card:
  assumes "includes_js g ''Gift Card''"
  shows "includes_js (toLowerCase g) ''gift''"
proof -
  have "includes_js g (''Gift'' @ '' Card'')" using assms by simp
  then have "includes_js g ''Gift''" by (rule includes_js_append)
  then have "includes_js (toLowerCase g) (toLowerCase ''Gift'')"
    unfolding toLowerCase_def by (rule includes_js_map)
  then show ?thesis by (simp only: lower_gift)
qed

lemma list_ex_gift:
  "list_ex (\<lambda>g. includes_js g ''Gift Card'') gs \<Longrightarrow>
   list_ex (\<lambda>method. includes_js (toLowerCase method) ''gift'') gs"
  by (induction gs) (auto dest: includes_gift_card)

lemma toLowerChar_at: "toLowerChar c = CHR ''@'' \<longleftrightarrow> c = CHR ''@''"
proof -
  have "of_char (toLowerChar c) = (64::nat) \<longleftrightarrow> of_char c = (64::nat)"
    by (auto simp: toLowerChar_def Let_def)
  moreover have "of_char (CHR ''@'') = (64::nat)" by simp
  ultimately show ?thesis
    by (metis of_char_eq_iff)
qed

lemma split_no_sep: "sep \<notin> set s \<Longrightarrow> split_js sep s = [s]"
  by (induction s) auto

lemma split_local_domain:
  "sep \<notin> set l \<Longrightarrow> sep \<notin> set d \<Longrightarrow> split_js sep (l @ sep # d) = [l, d]"
  by (induction l) (auto simp: split_no_sep)


lemma toLowerCase_no_at:
  assumes "CHR ''@'' \<notin> set l"
  shows "CHR ''@'' \<notin> set (toLowerCase l)"
proof
  assume "CHR ''@'' \<in> set (toLowerCase l)"
  then obtain c where c: "c \<in> set l" and "toLowerChar c = CHR ''@''"
    unfolding toLowerCase_def by auto
  then have "c = CHR ''@''" by (simp only: toLowerChar_at)
  with c assms show False by simp
qed

lemma toLowerCase_address:
  "toLowerCase (l @ CHR ''@'' # d) = toLowerCase l @ CHR ''@'' # toLowerCase d"
  by (simp add: toLowerCase_def toLowerChar_at [THEN iffD2])

lemma domain_of_email:
  assumes "CHR ''@'' \<notin> set l" and "CHR ''@'' \<notin> set (toLowerCase d)"
  shows "index_js (split_js CHR ''@'' (toLowerCase (l @ CHR ''@'' # d))) 1 = Some (toLowerCase d)"
proof -
  have "split_js CHR ''@'' (toLowerCase (l @ CHR ''@'' # d)) = [toLowerCase l, toLowerCase d]"
    unfolding toLowerCase_address
    by (rule split_local_domain [OF toLowerCase_no_at [OF assms(1)] assms(2)])
  then show ?thesis by (simp add: numeral_eq_Suc)
qed



lemma price_1200: "parseFloat ''1200.00'' = Finite 1200"
  by (simp add: parseFloat_def digitVal_def isWhiteSpace_def scale10_def)


subsection \<open>Auxiliary facts about the scoring engine\<close>

lemma contributionOf_push:
  "contributionOf f (push g d c st) = contributionOf f st + (if g = f then c else 0)"
  by (simp add: contributionOf_def push_def)

lemma contributionOf_start: "contributionOf f ([], 0) = 0"
  by (simp add: contributionOf_def)

lemma snd_push: "snd (push g d c st) = snd st + c"
  by (simp add: push_def)

lemma checkOrderValue_cases:
  "checkOrderValue F order st = st \<or>
   checkOrderValue F order st = push ''orderValue'' ''High value order'' 20 st \<or>
   checkOrderValue F order st = push ''orderValue'' ''Medium-high value order'' 10 st"
  by (simp add: checkOrderValue_def Let_def)

lemma checkAddressMismatch_cases:
  "checkAddressMismatch F order st = st \<or>
   checkAddressMismatch F order st =
     push ''addressMismatch'' ''Billing and shipping addresses don't match'' 15 st"
  by (simp add: checkAddressMismatch_def Let_def)

lemma checkEmailDomain_cases:
  "checkEmailDomain F order st = st \<or>
   checkEmailDomain F order st = push ''emailDomain'' ''Suspicious email domain'' 25 st"
  by (simp add: checkEmailDomain_def Let_def)

lemma collect_free:
  "\<not> isPro ts \<Longrightarrow>
   collectRiskFactors rt ss ts order =
     checkEmailDomain freePlanFactors order
       (checkAddressMismatch freePlanFactors order
         (checkOrderValue freePlanFactors order ([], 0)))"
  by (simp add: collectRiskFactors_def checkProFactors_def Let_def)

lemma score_analyze:
  "score (riskAnalysisOf rt ss ts order) = snd (collectRiskFactors rt ss ts order)"
  by (simp add: riskAnalysisOf_def Let_def)

lemma level_analyze:
  "level (riskAnalysisOf rt ss ts order) =
     riskLevelOf (case ss of None \<Rightarrow> defaultRiskThresholds | Some s \<Rightarrow> riskThresholds s)
       (score (riskAnalysisOf rt ss ts order))"
  by (simp add: riskAnalysisOf_def Let_def)

lemma status_analyze:
  "status (riskAnalysisOf rt ss ts order) = statusOf ss (level (riskAnalysisOf rt ss ts order))"
  by (simp add: riskAnalysisOf_def Let_def)

lemma free_contributions:
  assumes "\<not> isPro ts"
    and "f \<noteq> ''orderValue''" and "f \<noteq> ''addressMismatch''" and "f \<noteq> ''emailDomain''"
  shows "contributionOf f (collectRiskFactors rt ss ts order) = 0"
  using checkOrderValue_cases [of freePlanFactors order "([], 0)"]
        checkAddressMismatch_cases
          [of freePlanFactors order "checkOrderValue freePlanFactors order ([], 0)"]
        checkEmailDomain_cases
          [of freePlanFactors order
              "checkAddressMismatch freePlanFactors order
                 (checkOrderValue freePlanFactors order ([], 0))"]
        assms(2-4)
  unfolding collect_free [OF assms(1)]
  by (auto simp: contributionOf_push contributionOf_start)

lemma free_score:
  assumes "\<not> isPro ts"
  shows "snd (collectRiskFactors rt ss ts order) =
           contributionOf ''orderValue'' (collectRiskFactors rt ss ts order) +
           contributionOf ''addressMismatch'' (collectRiskFactors rt ss ts order) +
           contributionOf ''emailDomain'' (collectRiskFactors rt ss ts order)"
  using checkOrderValue_cases [of freePlanFactors order "([], 0)"]
        checkAddressMismatch_cases
          [of freePlanFactors order "checkOrderValue freePlanFactors order ([], 0)"]
        checkEmailDomain_cases
          [of freePlanFactors order
              "checkAddressMismatch freePlanFactors order
                 (checkOrderValue freePlanFactors order ([], 0))"]
  unfolding collect_free [OF assms]
  by (auto simp: contributionOf_push contributionOf_start snd_push)

lemma free_score_bound:
  assumes "\<not> isPro ts"
  shows "0 \<le> snd (collectRiskFactors rt ss ts order) \<and>
         snd (collectRiskFactors rt ss ts order) \<le> 60"
  using checkOrderValue_cases [of freePlanFactors order "([], 0)"]
        checkAddressMismatch_cases
          [of freePlanFactors order "checkOrderValue freePlanFactors order ([], 0)"]
        checkEmailDomain_cases
          [of freePlanFactors order
              "checkAddressMismatch freePlanFactors order
                 (checkOrderValue freePlanFactors order ([], 0))"]
  unfolding collect_free [OF assms]
  by (auto simp: snd_push)

lemma free_analysis_ignores_toggles:
  assumes "\<not> isPro ts"
  shows "riskAnalysisOf rt (Some (s\<lparr>riskFactors := F\<rparr>)) ts order = riskAnalysisOf rt (Some s) ts order"
  by (simp add: riskAnalysisOf_def Let_def collect_free [OF assms] statusOf_def)

lemma not_pro_iff:
  "\<not> isPro ts \<longleftrightarrow>
     (ts = None \<or> (\<exists>t. ts = Some t \<and> \<not> isActive t \<and> plan t \<noteq> Pro \<and> plan t \<noteq> Business))"
  by (cases ts) auto

lemma sample_settings [simp]:
  "getStoreSettings (sampleDb t) sampleShop = Some defaultSettings"
  by (simp add: getStoreSettings_def sampleDb_def)

lemma sample_trial [simp]:
  "getTrialStatus (sampleDb t) sampleShop = Some t"
  by (simp add: getTrialStatus_def sampleDb_def)

lemmas check_defs = checkOrderValue_def checkAddressMismatch_def checkEmailDomain_def
  checkIpLocation_def checkOrderTime_def checkGiftCardUse_def checkProFactors_def






subsection \<open>The sample delivery, evaluated\<close>

lemma sample_email_domain:
  "index_js (split_js CHR ''@'' (toLowerCase ''Bob@Mailinator.com'')) (Suc 0) = Some ''mailinator.com''"
  by code_simp

lemma sample_gift: "includes_js (toLowerCase ''Gift Card'') ''gift''"
  by code_simp

lemma mailinator_suspicious: "''mailinator.com'' \<in> set suspiciousDomains"
  by (simp add: suspiciousDomains_def)

lemma sample_collect_pro:
  "collectRiskFactors sampleRuntime (Some defaultSettings) (Some updatedTrialStatus) sampleOrder =
     push ''giftCardUse'' ''Payment with gift card'' 15
      (push ''orderTime'' ''Order placed during unusual hours'' 10
        (push ''emailDomain'' ''Suspicious email domain'' 25
          (push ''addressMismatch'' ''Billing and shipping addresses don't match'' 15
            (push ''orderValue'' ''High value order'' 20 ([], 0)))))"
  by (simp add: collectRiskFactors_def check_defs Let_def defaultSettings_def
      updatedTrialStatus_def sampleOrder_def sampleRuntime_def price_1200 sample_email_domain
      sample_gift mailinator_suspicious)

lemma sample_collect_free:
  "collectRiskFactors sampleRuntime (Some defaultSettings) (Some defaultTrialStatus) sampleOrder =
        (push ''emailDomain'' ''Suspicious email domain'' 25
          (push ''addressMismatch'' ''Billing and shipping addresses don't match'' 15
            (push ''orderValue'' ''High value order'' 20 ([], 0))))"
  by (simp add: collectRiskFactors_def check_defs Let_def freePlanFactors_def
      defaultTrialStatus_def sampleOrder_def sampleRuntime_def price_1200 sample_email_domain
      mailinator_suspicious)

lemma sample_pro_analysis:
  "analyzeOrderRisk sampleRuntime (sampleDb updatedTrialStatus) sampleOrder sampleShop =
     \<lparr>score = 85, level = High,
      factors = [''High value order'', ''Billing and shipping addresses don't match'',
                 ''Suspicious email domain'', ''Order placed during unusual hours'',
                 ''Payment with gift card''],
      reviewed = False, status = OnHold, ipAddress = None\<rparr>"
  by (simp add: analyzeOrderRisk_def riskAnalysisOf_def Let_def sample_collect_pro push_def
      riskLevelOf_def statusOf_def or_js_def)
     (simp add: defaultSettings_def sampleOrder_def)

lemma sample_free_analysis:
  "analyzeOrderRisk sampleRuntime (sampleDb defaultTrialStatus) sampleOrder sampleShop =
     \<lparr>score = 60, level = Medium,
      factors = [''High value order'', ''Billing and shipping addresses don't match'',
                 ''Suspicious email domain''],
      reviewed = False, status = Approved, ipAddress = None\<rparr>"
  by (simp add: analyzeOrderRisk_def riskAnalysisOf_def Let_def sample_collect_free push_def
      riskLevelOf_def statusOf_def or_js_def)
     (simp add: defaultSettings_def sampleOrder_def)


lemma lower_sample_domain: "toLowerCase ''Mailinator.com'' = ''mailinator.com''"
  by code_simp

lemma sample_gateway: "list_ex (\<lambda>g. includes_js g ''Gift Card'') [''Gift Card'']"
  by simp

subsection \<open>Auxiliary facts about the pipeline\<close>

lemma notifications_no_socket:
  "\<not> list_ex isSocketSend (sendRiskNotifications db order shop)"
  by (simp add: sendRiskNotifications_def Let_def split: option.split)

lemma notifications_no_insert:
  "\<not> list_ex isInsertOne (sendRiskNotifications db order shop)"
  by (simp add: sendRiskNotifications_def Let_def split: option.split)

lemma processPayload_no_socket:
  "\<not> list_ex isSocketSend (fst (processPayload rt request parsed db))"
  by (simp add: processPayload_def Let_def notifications_no_socket
      split: option.split)

lemma processWebhook_no_socket:
  "\<not> list_ex isSocketSend (fst (processWebhook rt request rawPayload db))"
  by (simp add: processWebhook_def Let_def processPayload_no_socket split: Parsed.split)

lemma find_snoc_hit: "P x \<Longrightarrow> find P (xs @ [x]) \<noteq> None"
  by (induction xs) auto

lemma saved_order_found:
  assumes "shopId orderData = shop" and "orderId orderData = oid"
  shows "getOrderById (createOrder db orderData) shop oid \<noteq> None"
  unfolding getOrderById_def createOrder_def using assms
  by (simp add: find_snoc_hit)

lemma map_order_ok:
  assumes "order_id payload = Some oid"
    and "\<not> list_ex (\<lambda>item. item_id item = None)
             (case line_items payload of None \<Rightarrow> [] | Some items \<Rightarrow> items)"
  shows "\<exists>orderData. mapShopifyOrderToModel payload shop ra = Some orderData \<and>
           shopId orderData = shop \<and> orderId orderData = oid \<and> riskAnalysis orderData = ra"
  using assms by (simp add: mapShopifyOrderToModel_def)

lemma processPayload_saved:
  assumes shop: "headers request ''x-shopify-shop-domain'' = Some shop" "shop \<noteq> []"
    and oid: "order_id payload = Some oid"
    and mapped: "mapShopifyOrderToModel payload shop (analyzeOrderRisk rt db payload shop) =
                 Some orderData"
    and saved: "getOrderById (createOrder db orderData) shop oid = Some savedOrder"
  shows "processPayload rt request (Some payload) db =
           ([Log (ReceivedWebhook (headers request ''x-shopify-topic'') shop),
             Log (OrderReceived (or_js (name payload) (order_id payload))),
             Log (AnalyzingOrderRisk shop),
             Log (RiskAnalysisResult (analyzeOrderRisk rt db payload shop)),
             InsertOne orderData,
             Log OrderSaved,
             Log (OrderAnalysisSummary (or_js (name payload) (order_id payload))
                    (analyzeOrderRisk rt db payload shop))] @
            sendRiskNotifications (createOrder db orderData) savedOrder shop,
            createOrder db orderData)"
  using saved by (simp add: processPayload_def Let_def shop oid mapped)

lemma processWebhook_accepted:
  assumes "headers request ''x-shopify-hmac-sha256'' = None \<or>
           headers request ''x-shopify-hmac-sha256'' = Some [] \<or>
           headers request ''x-shopify-hmac-sha256'' =
             Some (hmacSha256Base64 rt (secretKey rt) rawPayload)"
    and "jsonParse rt rawPayload = Payload payload"
  shows "processWebhook rt request rawPayload db = processPayload rt request (Some payload) db"
  using assms by (auto simp: processWebhook_def Let_def)

lemma sample_parse: "jsonParse sampleRuntime sampleBody = Payload sampleOrder"
  by (simp add: sampleRuntime_def)

lemma sample_secret: "secretKey sampleRuntime = ''secret''"
  by (simp add: secretKey_def sampleRuntime_def)

lemma sample_signature:
  "hmacSha256Base64 sampleRuntime (secretKey sampleRuntime) sampleBody = ''mac:secret:{order 5001}''"
  by (simp add: sample_secret) (simp add: sampleRuntime_def sampleBody_def)

lemma sample_order_id: "order_id sampleOrder = Some ''5001''"
  by (simp add: sampleOrder_def)

lemma sample_order_name: "or_js (name sampleOrder) (order_id sampleOrder) = Some ''#1001''"
  by (simp add: sampleOrder_def or_js_def)

lemma sample_map_order:
  "mapShopifyOrderToModel sampleOrder sampleShop
     (analyzeOrderRisk sampleRuntime (sampleDb updatedTrialStatus) sampleOrder sampleShop) =
   Some sampleSaved"
  unfolding sample_pro_analysis
  by (simp add: mapShopifyOrderToModel_def sampleOrder_def sampleSaved_def)

lemma sample_saved_found:
  "getOrderById (createOrder (sampleDb t) sampleSaved) sampleShop ''5001'' = Some sampleSaved"
  by (simp add: getOrderById_def createOrder_def sampleDb_def sampleSaved_def)

lemma sample_saved_notifications:
  "sendRiskNotifications (createOrder (sampleDb updatedTrialStatus) sampleSaved) sampleSaved
     sampleShop = [Log (NotificationsSent ''1001'')]"
  by (simp add: sendRiskNotifications_def getStoreSettings_def getTrialStatus_def createOrder_def
      sampleDb_def Let_def)
     (simp add: sampleSaved_def defaultSettings_def updatedTrialStatus_def)

lemma sample_shop_nonempty: "sampleShop \<noteq> []"
  by (simp add: sampleShop_def)

lemma sample_delivery:
  assumes "headers request ''x-shopify-hmac-sha256'' = None \<or>
           headers request ''x-shopify-hmac-sha256'' = Some [] \<or>
           headers request ''x-shopify-hmac-sha256'' =
             Some (hmacSha256Base64 sampleRuntime (secretKey sampleRuntime) sampleBody)"
    and "headers request ''x-shopify-shop-domain'' = Some sampleShop"
    and "headers request ''x-shopify-topic'' = Some ''orders/create''"
  shows "processWebhook sampleRuntime request sampleBody (sampleDb updatedTrialStatus) =
           ([Log (ReceivedWebhook (Some ''orders/create'') sampleShop),
             Log (OrderReceived (Some ''#1001'')),
             Log (AnalyzingOrderRisk sampleShop),
             Log (RiskAnalysisResult (riskAnalysis sampleSaved)),
             InsertOne sampleSaved,
             Log OrderSaved,
             Log (OrderAnalysisSummary (Some ''#1001'') (riskAnalysis sampleSaved)),
             Log (NotificationsSent ''1001'')],
            createOrder (sampleDb updatedTrialStatus) sampleSaved)"
proof -
  have ra: "analyzeOrderRisk sampleRuntime (sampleDb updatedTrialStatus) sampleOrder sampleShop =
            riskAnalysis sampleSaved"
    unfolding sample_pro_analysis by (simp add: sampleSaved_def)
  have "processWebhook sampleRuntime request sampleBody (sampleDb updatedTrialStatus) =
        processPayload sampleRuntime request (Some sampleOrder) (sampleDb updatedTrialStatus)"
    by (rule processWebhook_accepted [OF assms(1) sample_parse])
  also note processPayload_saved [OF assms(2) sample_shop_nonempty sample_order_id
      sample_map_order sample_saved_found]
  finally show ?thesis
    by (simp add: assms(3) sample_order_name sample_saved_notifications ra)
qed

lemma sample_request_headers:
  "headers sampleRequest ''x-shopify-hmac-sha256'' = Some ''mac:secret:{order 5001}''"
  "headers sampleRequest ''x-shopify-shop-domain'' = Some sampleShop"
  "headers sampleRequest ''x-shopify-topic'' = Some ''orders/create''"
  by (simp_all add: sampleRequest_def)

lemma empty_signature_headers:
  "headers emptySignatureRequest ''x-shopify-hmac-sha256'' = Some []"
  "headers emptySignatureRequest ''x-shopify-shop-domain'' = Some sampleShop"
  "headers emptySignatureRequest ''x-shopify-topic'' = Some ''orders/create''"
  by (simp_all add: emptySignatureRequest_def)

lemma sample_ws_connections: "shopConnections sampleWs sampleShop = Some [7]"
  by (simp add: sampleWs_def)

lemma sample_ws_ready: "readyState sampleWs sock = 1"
  by (simp add: sampleWs_def)

lemma sample_ws_reached:
  "wsRun [Connection 7 (Some sampleShop)] (wsInit (\<lambda>sock. 1)) = Inr sampleWs"
  by (simp add: onConnection_def getConnections_def wsInit_def sampleShop_def sampleWs_def
      objectPrototypeKeys_def set_add_def Let_def)

lemma sample_ws_broadcast:
  "notifyNewOrder sampleWs sampleShop orderData =
     Inr [SocketSend 7 (UpdateNewOrder orderData), Log (Broadcasted 1 sampleShop)]"
  by (simp add: notifyNewOrder_def broadcastUpdate_def getConnections_def
      sample_ws_connections sample_ws_ready)

subsection \<open>Auxiliary facts about the broadcast registry\<close>





















subsection \<open>The level is a step function of the score\<close>

text \<open>
  Claim C1. Whatever the order, the tenant's configuration and the subscription status, the
  level that \<^verbatim>\<open>analyzeOrderRisk\<close> returns is high exactly when the returned score
  reaches the high threshold, medium exactly when it reaches the medium threshold but not
  the high one, and low otherwise; the thresholds are the tenant's stored ones, and 75 and
  50 when the tenant has no stored settings.
\<close>

theorem level_step_function:
  "(let v = analyzeOrderRisk rt db order shop;
        t = (case getStoreSettings db shop of
               None \<Rightarrow> \<lparr>high = 75, medium = 50\<rparr>
             | Some s \<Rightarrow> riskThresholds s)
    in (level v = High \<longleftrightarrow> score v \<ge> high t) \<and>
       (level v = Medium \<longleftrightarrow> medium t \<le> score v \<and> score v < high t) \<and>
       (level v = Low \<longleftrightarrow> \<not> score v \<ge> high t \<and> \<not> (medium t \<le> score v \<and> score v < high t)))"
  unfolding Let_def analyzeOrderRisk_def level_analyze
  by (cases "getStoreSettings db shop") (auto simp: riskLevelOf_def defaultRiskThresholds_def)

theorem level_step_function_witness:
  "level (analyzeOrderRisk sampleRuntime (sampleDb defaultTrialStatus) sampleOrder sampleShop) = Medium \<and>
   (50::int) \<le> score (analyzeOrderRisk sampleRuntime (sampleDb defaultTrialStatus) sampleOrder sampleShop) \<and>
   score (analyzeOrderRisk sampleRuntime (sampleDb defaultTrialStatus) sampleOrder sampleShop) < 75"
  using level_step_function [of sampleRuntime "sampleDb defaultTrialStatus" sampleOrder sampleShop]
  by (simp add: Let_def defaultSettings_def sample_free_analysis)

subsection \<open>The status follows a fixed priority\<close>

text \<open>
  Claim C3. With stored settings, a high level gives \<open>on_hold\<close> when
  \<^verbatim>\<open>holdHighRiskOrders\<close> is set, whatever the other two flags; otherwise \<open>pending\<close> when
  \<^verbatim>\<open>flagForReview\<close> is set; otherwise \<open>declined\<close> when \<^verbatim>\<open>cancelHighRiskOrders\<close> is
  set; otherwise \<open>approved\<close>. A medium or low level always gives \<open>approved\<close>, and so
  does a tenant without stored settings.
\<close>

theorem status_priority:
  "(let v = analyzeOrderRisk rt db order shop
    in case getStoreSettings db shop of
         None \<Rightarrow> status v = Approved
       | Some s \<Rightarrow>
           (level v = High \<and> holdHighRiskOrders (automations s) \<longrightarrow> status v = OnHold) \<and>
           (level v = High \<and> \<not> holdHighRiskOrders (automations s) \<and>
              flagForReview (automations s) \<longrightarrow> status v = Pending) \<and>
           (level v = High \<and> \<not> holdHighRiskOrders (automations s) \<and>
              \<not> flagForReview (automations s) \<and> cancelHighRiskOrders (automations s)
              \<longrightarrow> status v = Declined) \<and>
           (level v = High \<and> \<not> holdHighRiskOrders (automations s) \<and>
              \<not> flagForReview (automations s) \<and> \<not> cancelHighRiskOrders (automations s)
              \<longrightarrow> status v = Approved) \<and>
           (level v \<noteq> High \<longrightarrow> status v = Approved))"
  unfolding Let_def analyzeOrderRisk_def status_analyze
  by (cases "getStoreSettings db shop") (auto simp: statusOf_def)

theorem status_priority_witness:
  "level (analyzeOrderRisk sampleRuntime (sampleDb updatedTrialStatus) sampleOrder sampleShop) = High \<and>
   holdHighRiskOrders (automations defaultSettings) \<and>
   flagForReview (automations defaultSettings) \<and>
   status (analyzeOrderRisk sampleRuntime (sampleDb updatedTrialStatus) sampleOrder sampleShop) = OnHold"
proof -
  have lvl: "level (analyzeOrderRisk sampleRuntime (sampleDb updatedTrialStatus) sampleOrder sampleShop) = High"
    by (simp add: sample_pro_analysis)
  have flags: "holdHighRiskOrders (automations defaultSettings) \<and> flagForReview (automations defaultSettings)"
    by (simp add: defaultSettings_def)
  from status_priority [of sampleRuntime "sampleDb updatedTrialStatus" sampleOrder sampleShop] lvl flags
  have "status (analyzeOrderRisk sampleRuntime (sampleDb updatedTrialStatus) sampleOrder sampleShop) = OnHold"
    by (simp add: Let_def)
  with lvl flags show ?thesis by simp
qed

subsection \<open>The free plan scores three factors only\<close>

text \<open>
  Claim C2. For a tenant that is not pro (no trial status, or a trial that is not active
  with a plan that is neither pro nor business), the factors ipLocation, orderTime,
  giftCardUse, customerHistory, checkoutSpeed and quantitySpike contribute 0: the score
  is what orderValue, addressMismatch and emailDomain contribute, and the whole verdict is
  the same whatever toggles the tenant has stored.
\<close>

theorem free_plan_factors_contribute_nothing:
  assumes "getTrialStatus db shop = None \<or>
           (\<exists>t. getTrialStatus db shop = Some t \<and> \<not> isActive t \<and> plan t \<noteq> Pro \<and> plan t \<noteq> Business)"
  shows "(let st = collectRiskFactors rt (getStoreSettings db shop) (getTrialStatus db shop) order
          in contributionOf ''ipLocation'' st = 0 \<and>
             contributionOf ''orderTime'' st = 0 \<and>
             contributionOf ''giftCardUse'' st = 0 \<and>
             contributionOf ''customerHistory'' st = 0 \<and>
             contributionOf ''checkoutSpeed'' st = 0 \<and>
             contributionOf ''quantitySpike'' st = 0 \<and>
             score (analyzeOrderRisk rt db order shop) =
               contributionOf ''orderValue'' st + contributionOf ''addressMismatch'' st +
               contributionOf ''emailDomain'' st) \<and>
         (\<forall>s toggles.
            getStoreSettings db shop = Some s \<longrightarrow>
            analyzeOrderRisk rt
              (db\<lparr>storeSettingsColl :=
                    (storeSettingsColl db)(shop \<mapsto> s\<lparr>riskFactors := toggles\<rparr>)\<rparr>)
              order shop =
            analyzeOrderRisk rt db order shop)"
proof -
  from assms have np: "\<not> isPro (getTrialStatus db shop)"
    by (simp add: not_pro_iff)
  have same: "\<And>s toggles. getStoreSettings db shop = Some s \<Longrightarrow>
            analyzeOrderRisk rt
              (db\<lparr>storeSettingsColl :=
                    (storeSettingsColl db)(shop \<mapsto> s\<lparr>riskFactors := toggles\<rparr>)\<rparr>)
              order shop =
            analyzeOrderRisk rt db order shop"
    using free_analysis_ignores_toggles [OF np, of rt _ _ order]
    by (simp add: analyzeOrderRisk_def getStoreSettings_def getTrialStatus_def)
  show ?thesis
    unfolding Let_def
    using free_score [OF np, of rt "getStoreSettings db shop" order] same
    by (simp add: free_contributions [OF np] analyzeOrderRisk_def score_analyze)
qed

theorem free_plan_factors_contribute_nothing_witness:
  "(getTrialStatus (sampleDb defaultTrialStatus) sampleShop = None \<or>
    (\<exists>t. getTrialStatus (sampleDb defaultTrialStatus) sampleShop = Some t \<and>
         \<not> isActive t \<and> plan t \<noteq> Pro \<and> plan t \<noteq> Business)) \<and>
   ipLocation (riskFactors defaultSettings) \<and> orderTime (riskFactors defaultSettings) \<and>
   giftCardUse (riskFactors defaultSettings) \<and>
   contributionOf ''orderTime''
     (collectRiskFactors sampleRuntime (Some defaultSettings) (Some defaultTrialStatus) sampleOrder) = 0 \<and>
   contributionOf ''giftCardUse''
     (collectRiskFactors sampleRuntime (Some defaultSettings) (Some defaultTrialStatus) sampleOrder) = 0"
proof -
  have h: "getTrialStatus (sampleDb defaultTrialStatus) sampleShop = None \<or>
    (\<exists>t. getTrialStatus (sampleDb defaultTrialStatus) sampleShop = Some t \<and>
         \<not> isActive t \<and> plan t \<noteq> Pro \<and> plan t \<noteq> Business)"
    by (simp add: defaultTrialStatus_def)
  from free_plan_factors_contribute_nothing [OF h, of sampleRuntime sampleOrder] h
  show ?thesis
    by (simp add: Let_def defaultSettings_def)
qed

subsection \<open>The free plan under the default thresholds\<close>

text \<open>
  Claim C10. For a tenant that is not pro (no trial status, or trial not active and plan
  free) under the thresholds 75 and 50 (stored, or by default), the score is between 0
  and 60, the level is never high and the status is approved, whatever the automation
  flags.
\<close>

theorem free_plan_default_thresholds_approved:
  assumes "getTrialStatus db shop = None \<or>
           (\<exists>t. getTrialStatus db shop = Some t \<and> \<not> isActive t \<and> plan t = Free)"
    and "getStoreSettings db shop = None \<or>
         (\<exists>s. getStoreSettings db shop = Some s \<and> high (riskThresholds s) = 75 \<and>
              medium (riskThresholds s) = 50)"
  shows "0 \<le> score (analyzeOrderRisk rt db order shop) \<and>
         score (analyzeOrderRisk rt db order shop) \<le> 60 \<and>
         level (analyzeOrderRisk rt db order shop) \<noteq> High \<and>
         status (analyzeOrderRisk rt db order shop) = Approved"
proof -
  from assms(1) have np: "\<not> isPro (getTrialStatus db shop)"
    by (auto simp: not_pro_iff)
  have bound: "0 \<le> score (analyzeOrderRisk rt db order shop) \<and>
               score (analyzeOrderRisk rt db order shop) \<le> 60"
    unfolding analyzeOrderRisk_def score_analyze by (rule free_score_bound [OF np])
  have lvl: "level (analyzeOrderRisk rt db order shop) \<noteq> High"
    using bound assms(2) unfolding analyzeOrderRisk_def level_analyze
    by (auto simp: riskLevelOf_def defaultRiskThresholds_def)
  have "status (analyzeOrderRisk rt db order shop) = Approved"
    using lvl unfolding analyzeOrderRisk_def status_analyze by (simp add: statusOf_def)
  with bound lvl show ?thesis by simp
qed

theorem free_plan_default_thresholds_approved_witness:
  "(getTrialStatus (sampleDb defaultTrialStatus) sampleShop = None \<or>
    (\<exists>t. getTrialStatus (sampleDb defaultTrialStatus) sampleShop = Some t \<and>
         \<not> isActive t \<and> plan t = Free)) \<and>
   (getStoreSettings (sampleDb defaultTrialStatus) sampleShop = None \<or>
    (\<exists>s. getStoreSettings (sampleDb defaultTrialStatus) sampleShop = Some s \<and>
         high (riskThresholds s) = 75 \<and> medium (riskThresholds s) = 50)) \<and>
   holdHighRiskOrders (automations defaultSettings) \<and>
   score (analyzeOrderRisk sampleRuntime (sampleDb defaultTrialStatus) sampleOrder sampleShop) \<le> 60 \<and>
   status (analyzeOrderRisk sampleRuntime (sampleDb defaultTrialStatus) sampleOrder sampleShop) = Approved"
proof -
  have h1: "getTrialStatus (sampleDb defaultTrialStatus) sampleShop = None \<or>
    (\<exists>t. getTrialStatus (sampleDb defaultTrialStatus) sampleShop = Some t \<and>
         \<not> isActive t \<and> plan t = Free)"
    by (simp add: defaultTrialStatus_def)
  have h2: "getStoreSettings (sampleDb defaultTrialStatus) sampleShop = None \<or>
    (\<exists>s. getStoreSettings (sampleDb defaultTrialStatus) sampleShop = Some s \<and>
         high (riskThresholds s) = 75 \<and> medium (riskThresholds s) = 50)"
    by (simp add: defaultSettings_def)
  have h3: "holdHighRiskOrders (automations defaultSettings)"
    by (simp add: defaultSettings_def)
  from free_plan_default_thresholds_approved [OF h1 h2, of sampleRuntime sampleOrder] h1 h2 h3
  show ?thesis by simp
qed

subsection \<open>A scenario: a pro tenant holds a high-risk order\<close>

text \<open>
  Claim C4. An order with total price 1200.00, billing and shipping countries that differ,
  a customer e-mail at mailinator.com (in any letter case), a creation time the server
  reads as hour 23, a payment gateway name containing \<open>Gift Card\<close> and no browser
  IP, scored for a pro tenant whose stored settings enable every factor, keep the
  thresholds 75 and 50 and set \<^verbatim>\<open>holdHighRiskOrders\<close>, gets the score
  20 + 15 + 25 + 10 + 15 = 85, the level high and the status \<open>on_hold\<close>.
\<close>

theorem scenario_pro_on_hold:
  assumes price: "total_price order = Some ''1200.00''"
    and addr: "billing_address order = Some b" "shipping_address order = Some sh"
      "country b \<noteq> country sh"
    and mail: "customer order = Some c" "customer_email c = Some (l @ CHR ''@'' # d)"
      "CHR ''@'' \<notin> set l" "toLowerCase d = ''mailinator.com''"
    and hour: "created_at order = Some ts" "ts \<noteq> []" "getHours rt ts = Some 23"
    and gift: "payment_gateway_names order = Some gs"
      "list_ex (\<lambda>g. includes_js g ''Gift Card'') gs"
    and noip: "\<not> truthy (browser_ip order)"
    and pro: "getTrialStatus db shop = Some t" "isActive t \<or> plan t = Pro \<or> plan t = Business"
    and settings: "getStoreSettings db shop = Some s" "riskFactors s = defaultEnabledFactors"
      "riskThresholds s = \<lparr>high = 75, medium = 50\<rparr>" "holdHighRiskOrders (automations s)"
  shows "score (analyzeOrderRisk rt db order shop) = 20 + 15 + 25 + 10 + 15 \<and>
         score (analyzeOrderRisk rt db order shop) = 85 \<and>
         level (analyzeOrderRisk rt db order shop) = High \<and>
         status (analyzeOrderRisk rt db order shop) = OnHold"
proof -
  have dom: "index_js (split_js CHR ''@'' (toLowerCase (l @ CHR ''@'' # d))) (Suc 0) =
             Some ''mailinator.com''"
    using domain_of_email [OF mail(3), of d] by (simp add: mail(4))
  have st: "collectRiskFactors rt (Some s) (Some t) order =
     push ''giftCardUse'' ''Payment with gift card'' 15
      (push ''orderTime'' ''Order placed during unusual hours'' 10
        (push ''emailDomain'' ''Suspicious email domain'' 25
          (push ''addressMismatch'' ''Billing and shipping addresses don't match'' 15
            (push ''orderValue'' ''High value order'' 20 ([], 0)))))"
    using pro(2) noip list_ex_gift [OF gift(2)]
    by (simp add: collectRiskFactors_def check_defs Let_def defaultEnabledFactors_def
        settings(2) price price_1200 addr mail(1,2) dom mailinator_suspicious hour gift(1))
  have sc: "score (analyzeOrderRisk rt db order shop) = 85"
    unfolding analyzeOrderRisk_def score_analyze pro(1) settings(1) st
    by (simp add: snd_push)
  have lv: "level (analyzeOrderRisk rt db order shop) = High"
    using sc unfolding analyzeOrderRisk_def level_analyze settings(1)
    by (simp add: riskLevelOf_def settings(3))
  have "status (analyzeOrderRisk rt db order shop) = OnHold"
    using lv settings(4) unfolding analyzeOrderRisk_def status_analyze settings(1)
    by (simp add: statusOf_def)
  with sc lv show ?thesis by simp
qed

theorem scenario_pro_on_hold_witness:
  "total_price sampleOrder = Some ''1200.00'' \<and>
   country (the (billing_address sampleOrder)) \<noteq> country (the (shipping_address sampleOrder)) \<and>
   customer_email (the (customer sampleOrder)) = Some (''Bob'' @ CHR ''@'' # ''Mailinator.com'') \<and>
   getHours sampleRuntime (the (created_at sampleOrder)) = Some 23 \<and>
   payment_gateway_names sampleOrder = Some [''Gift Card''] \<and>
   browser_ip sampleOrder = None \<and>
   plan updatedTrialStatus = Pro \<and>
   score (analyzeOrderRisk sampleRuntime (sampleDb updatedTrialStatus) sampleOrder sampleShop) = 85 \<and>
   level (analyzeOrderRisk sampleRuntime (sampleDb updatedTrialStatus) sampleOrder sampleShop) = High \<and>
   status (analyzeOrderRisk sampleRuntime (sampleDb updatedTrialStatus) sampleOrder sampleShop) = OnHold"
proof -
  have h: "total_price sampleOrder = Some ''1200.00''"
    "billing_address sampleOrder = Some \<lparr>zip = Some ''10001'', city = Some ''New York'', country = Some ''US''\<rparr>"
    "shipping_address sampleOrder = Some \<lparr>zip = Some ''10001'', city = Some ''New York'', country = Some ''CA''\<rparr>"
    "customer sampleOrder = Some \<lparr>customer_email = Some ''Bob@Mailinator.com''\<rparr>"
    "created_at sampleOrder = Some ''2024-03-01T23:30:00''"
    "getHours sampleRuntime ''2024-03-01T23:30:00'' = Some 23"
    "payment_gateway_names sampleOrder = Some [''Gift Card'']"
    "browser_ip sampleOrder = None"
    by (simp_all add: sampleOrder_def sampleRuntime_def)
  have p: "isActive updatedTrialStatus \<or> plan updatedTrialStatus = Pro \<or> plan updatedTrialStatus = Business"
    "plan updatedTrialStatus = Pro"
    by (simp_all add: updatedTrialStatus_def)
  have s: "riskFactors defaultSettings = defaultEnabledFactors"
    "riskThresholds defaultSettings = \<lparr>high = 75, medium = 50\<rparr>"
    "holdHighRiskOrders (automations defaultSettings)"
    by (simp_all add: defaultSettings_def defaultEnabledFactors_def)
  have r: "score (analyzeOrderRisk sampleRuntime (sampleDb updatedTrialStatus) sampleOrder sampleShop) = 85 \<and>
   level (analyzeOrderRisk sampleRuntime (sampleDb updatedTrialStatus) sampleOrder sampleShop) = High \<and>
   status (analyzeOrderRisk sampleRuntime (sampleDb updatedTrialStatus) sampleOrder sampleShop) = OnHold"
    using scenario_pro_on_hold [where l = "''Bob''" and d = "''Mailinator.com''",
        OF h(1) h(2) h(3) _ h(4) _ _ lower_sample_domain h(5) _ h(6) h(7) sample_gateway _
           sample_trial p(1) sample_settings s]
    by (simp add: h)
  show ?thesis using r h p(2) by simp
qed

subsection \<open>A total price that is not a number\<close>



subsection \<open>The pipeline after a delivery is accepted\<close>

text \<open>
  Claim C5. After a delivery has passed verification, parsing, scoring and persistence, a
  new-order event is to be pushed to the tenant's subscribers. The code falls short of
  this: \<^verbatim>\<open>notifyNewOrder\<close> is written for that push and the dashboard listens for it, but
  \<^verbatim>\<open>processWebhook\<close> never calls it. This is what the code does with a delivery whose
  signature header is absent, empty or equal to the HMAC of the body, whose body parses to
  a payload with an id (and whose line items all have ids), and which names a shop: it
  runs the scoring engine, then inserts the order document, then runs the notification
  dispatcher on the document read back, in this order, and sends nothing on the
  broadcast channel.
\<close>

theorem accepted_delivery_sends_no_broadcast:
  assumes verified:
      "headers request ''x-shopify-hmac-sha256'' = None \<or>
       headers request ''x-shopify-hmac-sha256'' = Some [] \<or>
       headers request ''x-shopify-hmac-sha256'' =
         Some (hmacSha256Base64 rt (secretKey rt) rawPayload)"
    and parsed: "jsonParse rt rawPayload = Payload payload"
    and shop: "headers request ''x-shopify-shop-domain'' = Some shop" "shop \<noteq> []"
    and ids: "order_id payload = Some oid"
      "\<not> list_ex (\<lambda>item. item_id item = None)
          (case line_items payload of None \<Rightarrow> [] | Some items \<Rightarrow> items)"
  shows "\<exists>orderData savedOrder.
           mapShopifyOrderToModel payload shop (analyzeOrderRisk rt db payload shop) =
             Some orderData \<and>
           getOrderById (createOrder db orderData) shop oid = Some savedOrder \<and>
           processWebhook rt request rawPayload db =
             ([Log (ReceivedWebhook (headers request ''x-shopify-topic'') shop),
               Log (OrderReceived (or_js (name payload) (order_id payload))),
               Log (AnalyzingOrderRisk shop),
               Log (RiskAnalysisResult (analyzeOrderRisk rt db payload shop)),
               InsertOne orderData,
               Log OrderSaved,
               Log (OrderAnalysisSummary (or_js (name payload) (order_id payload))
                      (analyzeOrderRisk rt db payload shop))] @
              sendRiskNotifications (createOrder db orderData) savedOrder shop,
              createOrder db orderData) \<and>
           \<not> list_ex isSocketSend (fst (processWebhook rt request rawPayload db))"
proof -
  from map_order_ok [OF ids, of shop "analyzeOrderRisk rt db payload shop"]
  obtain orderData where
    m: "mapShopifyOrderToModel payload shop (analyzeOrderRisk rt db payload shop) = Some orderData"
    and o: "shopId orderData = shop" "orderId orderData = oid"
    by blast
  from saved_order_found [OF o, of db]
  obtain savedOrder where s: "getOrderById (createOrder db orderData) shop oid = Some savedOrder"
    by blast
  have "processWebhook rt request rawPayload db = processPayload rt request (Some payload) db"
    by (rule processWebhook_accepted [OF verified parsed])
  also note processPayload_saved [OF shop ids(1) m s]
  finally show ?thesis
    using m s processWebhook_no_socket [of rt request rawPayload db] by blast
qed

text \<open>
  The sample delivery, signed, for a shop whose dashboard (socket 7, open) is attached:
  the order is stored, \<^verbatim>\<open>notifyNewOrder\<close> would reach the dashboard, and nothing is
  sent to it.
\<close>

theorem accepted_delivery_sends_no_broadcast_witness:
  "headers sampleRequest ''x-shopify-hmac-sha256'' =
     Some (hmacSha256Base64 sampleRuntime (secretKey sampleRuntime) sampleBody) \<and>
   jsonParse sampleRuntime sampleBody = Payload sampleOrder \<and>
   order_id sampleOrder = Some ''5001'' \<and>
   wsRun [Connection 7 (Some sampleShop)] (wsInit (\<lambda>sock. 1)) = Inr sampleWs \<and>
   notifyNewOrder sampleWs sampleShop sampleSaved =
     Inr [SocketSend 7 (UpdateNewOrder sampleSaved), Log (Broadcasted 1 sampleShop)] \<and>
   processWebhook sampleRuntime sampleRequest sampleBody (sampleDb updatedTrialStatus) =
     ([Log (ReceivedWebhook (Some ''orders/create'') sampleShop),
       Log (OrderReceived (Some ''#1001'')),
       Log (AnalyzingOrderRisk sampleShop),
       Log (RiskAnalysisResult (riskAnalysis sampleSaved)),
       InsertOne sampleSaved,
       Log OrderSaved,
       Log (OrderAnalysisSummary (Some ''#1001'') (riskAnalysis sampleSaved)),
       Log (NotificationsSent ''1001'')],
      createOrder (sampleDb updatedTrialStatus) sampleSaved) \<and>
   \<not> list_ex isSocketSend
       (fst (processWebhook sampleRuntime sampleRequest sampleBody
               (sampleDb updatedTrialStatus)))"
proof -
  have v: "headers sampleRequest ''x-shopify-hmac-sha256'' =
     Some (hmacSha256Base64 sampleRuntime (secretKey sampleRuntime) sampleBody)"
    by (simp add: sample_signature sample_request_headers)
  have items: "\<not> list_ex (\<lambda>item. item_id item = None)
          (case line_items sampleOrder of None \<Rightarrow> [] | Some items \<Rightarrow> items)"
    by (simp add: sampleOrder_def)
  from accepted_delivery_sends_no_broadcast
         [OF disjI2 [OF disjI2 [OF v]] sample_parse sample_request_headers(2)
             sample_shop_nonempty sample_order_id items, of "sampleDb updatedTrialStatus"]
  have quiet: "\<not> list_ex isSocketSend
       (fst (processWebhook sampleRuntime sampleRequest sampleBody
               (sampleDb updatedTrialStatus)))"
    by blast
  note effects = sample_delivery [OF disjI2 [OF disjI2 [OF v]] sample_request_headers(2,3)]
  from v sample_parse sample_order_id sample_ws_reached
    sample_ws_broadcast [of sampleSaved] effects quiet
  show ?thesis by blast
qed

subsection \<open>A signature that does not match\<close>

text \<open>
  Claim C6, as the code has it. A delivery whose signature header is present, not empty and
  different from the base64 HMAC-SHA256 of the raw body under the app secret is dropped
  before the body is parsed (whatever \<^verbatim>\<open>JSON.parse\<close> would do with it): the only effect
  is the error line, nothing is inserted and the orders collection is unchanged.
\<close>

theorem nonempty_bad_signature_aborts:
  assumes "headers request ''x-shopify-hmac-sha256'' = Some signature"
    and "signature \<noteq> []"
    and "signature \<noteq> hmacSha256Base64 rt (secretKey rt) rawPayload"
  shows "processWebhook (rt\<lparr>jsonParse := parse\<rparr>) request rawPayload db =
           ([Log InvalidWebhookSignature], db) \<and>
         \<not> list_ex isInsertOne
             (fst (processWebhook (rt\<lparr>jsonParse := parse\<rparr>) request rawPayload db)) \<and>
         ordersColl (snd (processWebhook (rt\<lparr>jsonParse := parse\<rparr>) request rawPayload db)) =
           ordersColl db"
proof -
  have k: "secretKey (rt\<lparr>jsonParse := parse\<rparr>) = secretKey rt"
    by (simp add: secretKey_def)
  show ?thesis
    using assms by (simp add: processWebhook_def Let_def k)
qed

theorem nonempty_bad_signature_aborts_witness:
  "headers sampleRequest ''x-shopify-hmac-sha256'' = Some ''mac:secret:{order 5001}'' \<and>
   ''mac:secret:{order 5001}'' \<noteq> hmacSha256Base64 sampleRuntime (secretKey sampleRuntime) tamperedBody \<and>
   processWebhook sampleRuntime sampleRequest tamperedBody (sampleDb defaultTrialStatus) =
     ([Log InvalidWebhookSignature], sampleDb defaultTrialStatus)"
proof -
  have h1: "headers sampleRequest ''x-shopify-hmac-sha256'' = Some ''mac:secret:{order 5001}''"
    by (simp add: sampleRequest_def)
  have h2: "''mac:secret:{order 5001}'' \<noteq> []" by simp
  have h3: "''mac:secret:{order 5001}'' \<noteq>
            hmacSha256Base64 sampleRuntime (secretKey sampleRuntime) tamperedBody"
    by (simp add: sample_secret) (simp add: sampleRuntime_def tamperedBody_def)
  have r: "sampleRuntime\<lparr>jsonParse := jsonParse sampleRuntime\<rparr> = sampleRuntime"
    by simp
  from nonempty_bad_signature_aborts [OF h1 h2 h3, of "jsonParse sampleRuntime"
         "sampleDb defaultTrialStatus"] h1 h3
  show ?thesis by (simp add: r)
qed

text \<open>
  Claim C6 as stated fails for a signature header that is present and empty: it differs
  from the HMAC, yet \<^verbatim>\<open>if (signature)\<close> skips the verification and the order is stored.
\<close>

theorem empty_signature_counterexample:
  "headers emptySignatureRequest ''x-shopify-hmac-sha256'' = Some [] \<and>
   hmacSha256Base64 sampleRuntime (secretKey sampleRuntime) sampleBody =
     ''mac:secret:{order 5001}'' \<and>
   list_ex isInsertOne
     (fst (processWebhook sampleRuntime emptySignatureRequest sampleBody
             (sampleDb updatedTrialStatus))) \<and>
   ordersColl
     (snd (processWebhook sampleRuntime emptySignatureRequest sampleBody
             (sampleDb updatedTrialStatus))) = [sampleSaved]"
  unfolding sample_delivery [OF disjI2 [OF disjI1 [OF empty_signature_headers(1)]]
      empty_signature_headers(2,3)]
  by (simp add: empty_signature_headers sample_signature createOrder_def sampleDb_def)

subsection \<open>The guards of the notification dispatcher\<close>

text \<open>
  Claim C7. For a low verdict the dispatcher only prints that no notification is needed;
  for a tenant that is not pro and a medium verdict it only prints that settings are
  missing, or that the free plan is notified of high-risk orders only. So in both cases,
  and whenever the level is not high for a tenant that is not pro, neither the e-mail nor
  the chat dispatch happens, and the outcome does not depend on the delivery frequency or
  on the channels that are enabled: those checks come later.
\<close>

theorem notification_guards:
  "(level (riskAnalysis order) = Low \<longrightarrow>
      sendRiskNotifications db order shop = [Log (NoNotificationNeeded (orderNumber order))]) \<and>
   ((getTrialStatus db shop = None \<or>
     (\<exists>t. getTrialStatus db shop = Some t \<and> \<not> isActive t \<and> plan t \<noteq> Pro \<and>
          plan t \<noteq> Business)) \<and>
    level (riskAnalysis order) = Medium \<longrightarrow>
      sendRiskNotifications db order shop =
        (case getStoreSettings db shop of
           None \<Rightarrow> [Log (NoNotificationSettings shop)]
         | Some s \<Rightarrow> [Log FreePlanHighRiskOnly])) \<and>
   (level (riskAnalysis order) = Low \<or>
    (getTrialStatus db shop = None \<or>
     (\<exists>t. getTrialStatus db shop = Some t \<and> \<not> isActive t \<and> plan t \<noteq> Pro \<and>
          plan t \<noteq> Business)) \<and>
    level (riskAnalysis order) \<noteq> High \<longrightarrow>
      \<not> list_ex isDispatch (sendRiskNotifications db order shop))"
proof -
  have low: "level (riskAnalysis order) = Low \<Longrightarrow>
      sendRiskNotifications db order shop = [Log (NoNotificationNeeded (orderNumber order))]"
    by (simp add: sendRiskNotifications_def Let_def)
  have med: "\<not> isPro (getTrialStatus db shop) \<Longrightarrow> level (riskAnalysis order) = Medium \<Longrightarrow>
      sendRiskNotifications db order shop =
        (case getStoreSettings db shop of
           None \<Rightarrow> [Log (NoNotificationSettings shop)]
         | Some s \<Rightarrow> [Log FreePlanHighRiskOnly])"
    by (simp add: sendRiskNotifications_def Let_def split: option.split)
  have silent: "level (riskAnalysis order) = Low \<or>
      \<not> isPro (getTrialStatus db shop) \<and> level (riskAnalysis order) \<noteq> High \<Longrightarrow>
      \<not> list_ex isDispatch (sendRiskNotifications db order shop)"
    by (cases "level (riskAnalysis order)")
       (auto simp: sendRiskNotifications_def Let_def split: option.split)
  show ?thesis
    unfolding not_pro_iff [symmetric] using low med silent by blast
qed

theorem notification_guards_witness:
  "level (riskAnalysis lowOrder) = Low \<and>
   enabled (email (notifications defaultSettings)) \<and>
   frequency (notifications defaultSettings) = Immediate \<and>
   sendRiskNotifications (sampleDb updatedTrialStatus) lowOrder sampleShop =
     [Log (NoNotificationNeeded ''1002'')] \<and>
   level (riskAnalysis mediumOrder) = Medium \<and>
   getTrialStatus (sampleDb defaultTrialStatus) sampleShop = Some defaultTrialStatus \<and>
   plan defaultTrialStatus = Free \<and>
   sendRiskNotifications (sampleDb defaultTrialStatus) mediumOrder sampleShop =
     [Log FreePlanHighRiskOnly]"
proof -
  have l: "level (riskAnalysis lowOrder) = Low" by (simp add: lowOrder_def)
  have n: "orderNumber lowOrder = ''1002''" by (simp add: lowOrder_def)
  have s: "enabled (email (notifications defaultSettings)) \<and>
           frequency (notifications defaultSettings) = Immediate"
    by (simp add: defaultSettings_def)
  have m: "level (riskAnalysis mediumOrder) = Medium" by (simp add: mediumOrder_def)
  have f: "\<not> isActive defaultTrialStatus \<and> plan defaultTrialStatus = Free"
    by (simp add: defaultTrialStatus_def)
  from notification_guards [of lowOrder "sampleDb updatedTrialStatus" sampleShop] l n
  have a: "sendRiskNotifications (sampleDb updatedTrialStatus) lowOrder sampleShop =
     [Log (NoNotificationNeeded ''1002'')]"
    by simp
  from notification_guards [of mediumOrder "sampleDb defaultTrialStatus" sampleShop] m f
  have b: "sendRiskNotifications (sampleDb defaultTrialStatus) mediumOrder sampleShop =
     [Log FreePlanHighRiskOnly]"
    by simp
  from a b l s m f show ?thesis by simp
qed

subsection \<open>The registry of the broadcast channel\<close>




end
